theory Spec2Isabelle
  imports Complex_Main
begin

section \<open>The PyTorch GMM adapter (tools/pytorch/gmm.py)\<close>

text \<open>
  The module is glue code around collaborators that live in other modules: the objective
  \<open>gmm_objective\<close>, the differentiation routine \<open>torch_jacobian\<close>, the tensor
  conversions \<open>to_torch_tensors\<close>, the marshalling decorator \<open>wrap\<close> and the data
  classes \<open>GMMInput\<close> and \<open>Wishart\<close>. The objective and the differentiation capability
  are parameters of the model; the other collaborators are modelled from the specification,
  each marked as such. Numbers are kept polymorphic: nothing in this module computes with
  them.
\<close>

subsection \<open>Values, errors, tensors\<close>

text \<open>A decoded JSON value as the raw record holds it: a number or a (nested) list.\<close>

datatype 'a pyval = Num 'a | PList "'a pyval list"

datatype error =
    NameError string
  | AttributeError string
  | KeyError string
  | ValueError
  | RuntimeError
  | NumericalError

text \<open>
  A tensor: its shape, its elements in row-major order and the gradient-tracking flag.
  Every tensor built below has as many elements as its shape says.
\<close>

record 'a tensor =
  shape :: "nat list"
  data :: "'a list"
  requires_grad :: bool

definition numel :: "'a tensor \<Rightarrow> nat" where
  "numel t = prod_list (shape t)"

text \<open>The shape of a nested list, when it is rectangular.\<close>

fun shape_of :: "'a pyval \<Rightarrow> nat list option" where
  "shape_of (Num v) = Some []"
| "shape_of (PList []) = Some [0]"
| "shape_of (PList (y # ys)) =
     (case shape_of y of
        None \<Rightarrow> None
      | Some s \<Rightarrow> if list_all (\<lambda>z. shape_of z = Some s) ys
                  then Some (Suc (length ys) # s) else None)"

fun flatten :: "'a pyval \<Rightarrow> 'a list" where
  "flatten (Num v) = [v]"
| "flatten (PList vs) = concat (map flatten vs)"

text \<open>
  Modelled from the spec: \<open>to_torch_tensor\<close> and \<open>to_torch_tensors\<close> of the module
  \<open>utils\<close>, defined outside this module. The conversion builds a tensor
  with the requested gradient tracking (off unless asked for) and surfaces a shape mismatch
  of the raw value as an error.
\<close>

definition to_torch_tensor :: "bool \<Rightarrow> 'a pyval \<Rightarrow> error + 'a tensor" where
  "to_torch_tensor grad_req v =
     (case shape_of v of
        None \<Rightarrow> Inl ValueError
      | Some s \<Rightarrow> Inr \<lparr>shape = s, data = flatten v, requires_grad = grad_req\<rparr>)"

definition to_torch_tensors ::
  "bool \<Rightarrow> 'a pyval \<times> 'a pyval \<times> 'a pyval \<Rightarrow> error + ('a tensor \<times> 'a tensor \<times> 'a tensor)" where
  "to_torch_tensors grad_req ps =
     (case ps of (p1, p2, p3) \<Rightarrow>
        (case to_torch_tensor grad_req p1 of Inl e \<Rightarrow> Inl e | Inr t1 \<Rightarrow>
        (case to_torch_tensor grad_req p2 of Inl e \<Rightarrow> Inl e | Inr t2 \<Rightarrow>
        (case to_torch_tensor grad_req p3 of Inl e \<Rightarrow> Inl e | Inr t3 \<Rightarrow>
           Inr (t1, t2, t3)))))"

text \<open>\<open>torch.zeros(1)\<close> and \<open>torch.empty(0)\<close>.\<close>

definition torch_zeros :: "nat \<Rightarrow> ('a::zero) tensor" where
  "torch_zeros n = \<lparr>shape = [n], data = replicate n 0, requires_grad = False\<rparr>"

definition torch_empty :: "nat \<Rightarrow> 'a tensor" where
  "torch_empty n = \<lparr>shape = [n], data = [], requires_grad = False\<rparr>"

text \<open>
  \<open>Tensor.tolist()\<close>: the nested list of a tensor's elements; a tensor without
  dimensions gives its one element.
\<close>

fun unflatten :: "nat list \<Rightarrow> 'a list \<Rightarrow> 'a pyval" where
  "unflatten [] vs = (case vs of [] \<Rightarrow> PList [] | v # _ \<Rightarrow> Num v)"
| "unflatten (n # ns) vs =
     PList (map (\<lambda>i. unflatten ns (take (prod_list ns) (drop (i * prod_list ns) vs))) [0..<n])"

definition tolist :: "'a tensor \<Rightarrow> 'a pyval" where
  "tolist t = unflatten (shape t) (data t)"

text \<open>
  \<open>Tensor.item()\<close> needs exactly one element; \<open>Tensor.numpy()\<close> refuses a tensor that
  tracks gradients and gives the array (shape and elements) otherwise.
\<close>

definition item :: "'a tensor \<Rightarrow> error + 'a" where
  "item t = (case data t of [v] \<Rightarrow> Inr v | _ \<Rightarrow> Inl RuntimeError)"

definition numpy :: "'a tensor \<Rightarrow> error + (nat list \<times> 'a list)" where
  "numpy t = (if requires_grad t then Inl RuntimeError else Inr (shape t, data t))"

subsection \<open>Data classes\<close>

text \<open>
  Modelled from the spec: the data classes \<open>Wishart\<close> (module \<open>defs\<close>) and
  \<open>GMMInput\<close> (module \<open>gmm_data\<close>), plain containers of the fields the data model
  lists, in that order, and \<open>GMMOutput\<close>: a scalar objective and a gradient array.
\<close>

record 'a Wishart =
  gamma :: "'a pyval"
  wishart_m :: "'a pyval"

record 'a GMMInput =
  alphas :: "'a pyval"
  means :: "'a pyval"
  icf :: "'a pyval"
  gmm_x :: "'a pyval"
  wishart :: "'a Wishart"

datatype 'a GMMOutput = GMMOutput 'a "nat list \<times> 'a list"

subsection \<open>The adapter class \<open>PyTorchGMM\<close>\<close>

text \<open>
  An instance carries the attributes \<open>inputs\<close>, \<open>params\<close>, \<open>objective\<close> and
  \<open>gradient\<close>; an attribute that was never assigned is \<open>None\<close> here and reading it
  raises \<open>AttributeError\<close>. A method returns the exception it raised, if any, together
  with the instance as the call left it.
\<close>

record 'a PyTorchGMM =
  inputs :: "('a tensor \<times> 'a tensor \<times> 'a tensor) option"
  params :: "('a tensor \<times> 'a tensor \<times> 'a tensor) option"
  objective :: "'a tensor option"
  gradient :: "'a tensor option"

text \<open>
  Modelled from the spec: the constructor inherited from the interface \<open>ITest\<close> (module
  \<open>itest\<close>) assigns no attribute, so that a new instance is in the uninitialized state.
\<close>

definition PyTorchGMM_new :: "'a PyTorchGMM" where
  "PyTorchGMM_new = \<lparr>inputs = None, params = None, objective = None, gradient = None\<rparr>"

text \<open>The external objective: a pure function of six tensors that may raise.\<close>

type_synonym 'a objective_fn =
  "'a tensor \<Rightarrow> 'a tensor \<Rightarrow> 'a tensor \<Rightarrow> 'a tensor \<Rightarrow> 'a tensor \<Rightarrow> 'a tensor \<Rightarrow> error + 'a tensor"

text \<open>
  The differentiation capability: the partial derivative of the objective at the given
  inputs and parameters with respect to element \<open>j\<close> of differentiable input \<open>k\<close>.
\<close>

type_synonym 'a autodiff =
  "'a objective_fn \<Rightarrow> 'a tensor \<times> 'a tensor \<times> 'a tensor \<Rightarrow> 'a tensor \<times> 'a tensor \<times> 'a tensor
    \<Rightarrow> nat \<Rightarrow> nat \<Rightarrow> 'a"

text \<open>
  Modelled from the spec: \<open>torch_jacobian\<close> of the module \<open>utils\<close>. It evaluates the
  objective and returns it with the gradient: one partial derivative for each element of
  each differentiable input, in the flattened concatenation order of the inputs.
\<close>

definition torch_jacobian ::
  "'a autodiff \<Rightarrow> 'a objective_fn \<Rightarrow> 'a tensor \<times> 'a tensor \<times> 'a tensor
    \<Rightarrow> 'a tensor \<times> 'a tensor \<times> 'a tensor \<Rightarrow> error + ('a tensor \<times> 'a tensor)" where
  "torch_jacobian ad func inp par =
     (case inp of (t1, t2, t3) \<Rightarrow>
      (case par of (p1, p2, p3) \<Rightarrow>
        (case func t1 t2 t3 p1 p2 p3 of
           Inl e \<Rightarrow> Inl e
         | Inr res \<Rightarrow>
             Inr (res,
               \<lparr>shape = [numel t1 + numel t2 + numel t3],
                data = map (ad func inp par 0) [0..<numel t1]
                     @ map (ad func inp par 1) [0..<numel t2]
                     @ map (ad func inp par 2) [0..<numel t3],
                requires_grad = False\<rparr>))))"

definition prepare :: "('a::zero) GMMInput \<Rightarrow> 'a PyTorchGMM \<Rightarrow> error option \<times> 'a PyTorchGMM" where
  "prepare input self =
     (case to_torch_tensors True (alphas input, means input, icf input) of
        Inl e \<Rightarrow> (Some e, self)
      | Inr inp \<Rightarrow>
          (let self = self\<lparr>inputs := Some inp\<rparr> in
           (case to_torch_tensors False
                   (gmm_x input, gamma (wishart input), wishart_m (wishart input)) of
              Inl e \<Rightarrow> (Some e, self)
            | Inr par \<Rightarrow>
                (let self = self\<lparr>params := Some par\<rparr>;
                     self = self\<lparr>objective := Some (torch_zeros 1)\<rparr>;
                     self = self\<lparr>gradient := Some (torch_empty 0)\<rparr>
                 in (None, self)))))"

text \<open>
  The names bound in the module's namespace once it is loaded: its imports and its own
  definitions. A name that is neither there nor a builtin raises \<open>NameError\<close> when read.
\<close>

definition module_globals :: "string list" where
  "module_globals =
     [''np'', ''torch'', ''Wishart'', ''GMMInput'', ''gmm_objective'', ''ITest'',
      ''to_torch_tensor'', ''to_torch_tensors'', ''torch_jacobian'', ''wrap'',
      ''PyTorchGMM'', ''prepare_input'', ''calculate_jacobianGMM'',
      ''calculate_objectiveGMM'']"

text \<open>
  The method \<open>output\<close> (\<open>output_method\<close> here): the callee \<open>GMMOutput\<close> is looked up first, then the arguments are
  evaluated from left to right.
\<close>

definition output_method :: "'a PyTorchGMM \<Rightarrow> (error + 'a GMMOutput) \<times> 'a PyTorchGMM" where
  "output_method self =
     (if ''GMMOutput'' \<notin> set module_globals then (Inl (NameError ''GMMOutput''), self)
      else
        (case objective self of
           None \<Rightarrow> (Inl (AttributeError ''objective''), self)
         | Some obj \<Rightarrow>
             (case item obj of
                Inl e \<Rightarrow> (Inl e, self)
              | Inr v \<Rightarrow>
                  (case gradient self of
                     None \<Rightarrow> (Inl (AttributeError ''gradient''), self)
                   | Some g \<Rightarrow>
                       (case numpy g of
                          Inl e \<Rightarrow> (Inl e, self)
                        | Inr arr \<Rightarrow> (Inr (GMMOutput v arr), self))))))"

text \<open>
  The loops \<open>for i in range(times)\<close>, by the number of iterations left; a count
  below one gives no iteration.
\<close>

fun objective_loop :: "'a objective_fn \<Rightarrow> nat \<Rightarrow> 'a PyTorchGMM \<Rightarrow> error option \<times> 'a PyTorchGMM" where
  "objective_loop gmm_objective 0 self = (None, self)"
| "objective_loop gmm_objective (Suc n) self =
     (case inputs self of
        None \<Rightarrow> (Some (AttributeError ''inputs''), self)
      | Some (t1, t2, t3) \<Rightarrow>
          (case params self of
             None \<Rightarrow> (Some (AttributeError ''params''), self)
           | Some (p1, p2, p3) \<Rightarrow>
               (case gmm_objective t1 t2 t3 p1 p2 p3 of
                  Inl e \<Rightarrow> (Some e, self)
                | Inr res \<Rightarrow> objective_loop gmm_objective n (self\<lparr>objective := Some res\<rparr>))))"

definition calculate_objective ::
  "'a objective_fn \<Rightarrow> int \<Rightarrow> 'a PyTorchGMM \<Rightarrow> error option \<times> 'a PyTorchGMM" where
  "calculate_objective gmm_objective ntimes self = objective_loop gmm_objective (nat ntimes) self"

fun jacobian_loop ::
  "'a autodiff \<Rightarrow> 'a objective_fn \<Rightarrow> nat \<Rightarrow> 'a PyTorchGMM \<Rightarrow> error option \<times> 'a PyTorchGMM" where
  "jacobian_loop ad gmm_objective 0 self = (None, self)"
| "jacobian_loop ad gmm_objective (Suc n) self =
     (case inputs self of
        None \<Rightarrow> (Some (AttributeError ''inputs''), self)
      | Some inp \<Rightarrow>
          (case params self of
             None \<Rightarrow> (Some (AttributeError ''params''), self)
           | Some par \<Rightarrow>
               (case torch_jacobian ad gmm_objective inp par of
                  Inl e \<Rightarrow> (Some e, self)
                | Inr (res, grad) \<Rightarrow>
                    jacobian_loop ad gmm_objective n
                      (self\<lparr>objective := Some res, gradient := Some grad\<rparr>))))"

definition calculate_jacobian ::
  "'a autodiff \<Rightarrow> 'a objective_fn \<Rightarrow> int \<Rightarrow> 'a PyTorchGMM \<Rightarrow> error option \<times> 'a PyTorchGMM" where
  "calculate_jacobian ad gmm_objective ntimes self =
     jacobian_loop ad gmm_objective (nat ntimes) self"

subsection \<open>The free functions\<close>

text \<open>The raw record is a dictionary; \<open>input["key"]\<close> raises \<open>KeyError\<close> on a missing key.\<close>

definition getitem :: "(string \<rightharpoonup> 'v) \<Rightarrow> string \<Rightarrow> error + 'v" where
  "getitem d k = (case d k of None \<Rightarrow> Inl (KeyError k) | Some v \<Rightarrow> Inr v)"

definition prepare_input :: "(string \<rightharpoonup> 'a pyval) \<Rightarrow> error + 'a GMMInput" where
  "prepare_input input =
     (case getitem input ''alpha'' of Inl e \<Rightarrow> Inl e | Inr v1 \<Rightarrow>
     (case getitem input ''means'' of Inl e \<Rightarrow> Inl e | Inr v2 \<Rightarrow>
     (case getitem input ''icf'' of Inl e \<Rightarrow> Inl e | Inr v3 \<Rightarrow>
     (case getitem input ''x'' of Inl e \<Rightarrow> Inl e | Inr v4 \<Rightarrow>
     (case getitem input ''gamma'' of Inl e \<Rightarrow> Inl e | Inr v5 \<Rightarrow>
     (case getitem input ''m'' of Inl e \<Rightarrow> Inl e | Inr v6 \<Rightarrow>
        Inr \<lparr>alphas = v1, means = v2, icf = v3, gmm_x = v4,
             wishart = \<lparr>gamma = v5, wishart_m = v6\<rparr>\<rparr>))))))"

text \<open>
  The instances alive in the interpreter, by reference. \<open>PyTorchGMM()\<close> allocates a new
  instance; a method call works on the instance its reference names, and references are
  always those of allocated instances.
\<close>

type_synonym 'a heap = "'a PyTorchGMM list"

definition new_instance :: "'a heap \<Rightarrow> nat \<times> 'a heap" where
  "new_instance h = (length h, h @ [PyTorchGMM_new])"

definition call :: "nat \<Rightarrow> ('a PyTorchGMM \<Rightarrow> 'r \<times> 'a PyTorchGMM) \<Rightarrow> 'a heap \<Rightarrow> 'r \<times> 'a heap" where
  "call py meth h = (case meth (h ! py) of (r, self) \<Rightarrow> (r, h[py := self]))"

text \<open>The undecorated bodies of \<open>calculate_jacobianGMM\<close> and \<open>calculate_objectiveGMM\<close>.\<close>

definition calculate_jacobianGMM_body ::
  "'a autodiff \<Rightarrow> 'a objective_fn \<Rightarrow> ('a::zero) GMMInput \<Rightarrow> 'a heap \<Rightarrow> (error + 'a tensor) \<times> 'a heap" where
  "calculate_jacobianGMM_body ad gmm_objective input h =
     (case new_instance h of (py, h) \<Rightarrow>
     (case call py (prepare input) h of
        (Some e, h) \<Rightarrow> (Inl e, h)
      | (None, h) \<Rightarrow>
     (case call py (calculate_jacobian ad gmm_objective 1) h of
        (Some e, h) \<Rightarrow> (Inl e, h)
      | (None, h) \<Rightarrow>
     (case gradient (h ! py) of
        None \<Rightarrow> (Inl (AttributeError ''gradient''), h)
      | Some t \<Rightarrow> (Inr t, h)))))"

definition calculate_objectiveGMM_body ::
  "'a objective_fn \<Rightarrow> ('a::zero) GMMInput \<Rightarrow> 'a heap \<Rightarrow> (error + 'a tensor) \<times> 'a heap" where
  "calculate_objectiveGMM_body gmm_objective input h =
     (case new_instance h of (py, h) \<Rightarrow>
     (case call py (prepare input) h of
        (Some e, h) \<Rightarrow> (Inl e, h)
      | (None, h) \<Rightarrow>
     (case call py (calculate_objective gmm_objective 1) h of
        (Some e, h) \<Rightarrow> (Inl e, h)
      | (None, h) \<Rightarrow>
     (case objective (h ! py) of
        None \<Rightarrow> (Inl (AttributeError ''objective''), h)
      | Some t \<Rightarrow> (Inr t, h)))))"

text \<open>
  Modelled from the spec: the decorator \<open>wrap\<close> of the module \<open>wrap_module\<close>, a
  marshalling stage that converts the raw record before the call and the result after it;
  a failure of either stage or of the call propagates.
\<close>

definition wrap ::
  "('r \<Rightarrow> error + 'i) \<Rightarrow> ('o \<Rightarrow> 'p) \<Rightarrow> ('i \<Rightarrow> 'h \<Rightarrow> (error + 'o) \<times> 'h)
    \<Rightarrow> 'r \<Rightarrow> 'h \<Rightarrow> (error + 'p) \<times> 'h" where
  "wrap preprocess postprocess function raw h =
     (case preprocess raw of
        Inl e \<Rightarrow> (Inl e, h)
      | Inr arg \<Rightarrow>
          (case function arg h of
             (Inl e, h) \<Rightarrow> (Inl e, h)
           | (Inr ret, h) \<Rightarrow> (Inr (postprocess ret), h)))"

definition calculate_jacobianGMM ::
  "'a autodiff \<Rightarrow> 'a objective_fn \<Rightarrow> (string \<rightharpoonup> ('a::zero) pyval) \<Rightarrow> 'a heap
    \<Rightarrow> (error + 'a pyval) \<times> 'a heap" where
  "calculate_jacobianGMM ad gmm_objective =
     wrap prepare_input (\<lambda>x. tolist x) (calculate_jacobianGMM_body ad gmm_objective)"

definition calculate_objectiveGMM ::
  "'a objective_fn \<Rightarrow> (string \<rightharpoonup> ('a::zero) pyval) \<Rightarrow> 'a heap \<Rightarrow> (error + 'a pyval) \<times> 'a heap" where
  "calculate_objectiveGMM gmm_objective =
     wrap prepare_input (\<lambda>x. tolist x) (calculate_objectiveGMM_body gmm_objective)"

subsection \<open>Concrete inputs\<close>

text \<open>
  The raw record of the round-trip scenario, the \<open>GMMInput\<close> built from it, and a
  sample objective (the sum of the elements of \<open>alphas\<close>, plus twice that of \<open>means\<close>,
  plus three times that of \<open>icf\<close>) with its partial derivatives.
\<close>

definition example_raw :: "string \<rightharpoonup> real pyval" where
  "example_raw = map_of
     [(''alpha'', PList [Num 0.5, Num 0.5]),
      (''means'', PList [PList [Num 0, Num 0], PList [Num 1, Num 1]]),
      (''icf'', PList [PList [Num 1, Num 0], PList [Num 1, Num 0]]),
      (''x'', PList [PList [Num 0.1, Num 0.1]]),
      (''gamma'', Num 1.0),
      (''m'', Num 0)]"

definition example_input :: "real GMMInput" where
  "example_input =
     \<lparr>alphas = PList [Num 0.5, Num 0.5],
      means = PList [PList [Num 0, Num 0], PList [Num 1, Num 1]],
      icf = PList [PList [Num 1, Num 0], PList [Num 1, Num 0]],
      gmm_x = PList [PList [Num 0.1, Num 0.1]],
      wishart = \<lparr>gamma = Num 1.0, wishart_m = Num 0\<rparr>\<rparr>"

definition example_objective :: "real objective_fn" where
  "example_objective t1 t2 t3 p1 p2 p3 =
     Inr \<lparr>shape = [],
          data = [sum_list (data t1) + 2 * sum_list (data t2) + 3 * sum_list (data t3)],
          requires_grad = True\<rparr>"

definition example_autodiff :: "real autodiff" where
  "example_autodiff func inp par k j = of_nat (Suc k)"

section \<open>Properties\<close>

subsection \<open>Auxiliary facts\<close>

lemma shape_of_numel:
  "shape_of v = Some s \<Longrightarrow> prod_list s = length (flatten v)"
proof (induction v arbitrary: s)
  case (Num a)
  then show ?case by simp
next
  case (PList vs)
  show ?case
  proof (cases vs)
    case Nil
    with PList.prems show ?thesis by auto
  next
    case (Cons y ys)
    from PList.prems Cons obtain s' where
      y: "shape_of y = Some s'" and
      ys: "list_all (\<lambda>z. shape_of z = Some s') ys" and
      s: "s = Suc (length ys) # s'"
      by (auto split: option.splits if_splits)
    have hy: "length (flatten y) = prod_list s'"
      using PList.IH [of y s'] y Cons by simp
    have "length (flatten z) = prod_list s'" if "z \<in> set ys" for z
    proof -
      from that ys have "shape_of z = Some s'" by (simp add: list_all_iff)
      with that Cons show ?thesis using PList.IH [of z s'] by simp
    qed
    then have "sum_list (map (length \<circ> flatten) ys) = length ys * prod_list s'"
      by (induction ys) simp_all
    with hy s Cons show ?thesis
      by (simp add: length_concat comp_def)
  qed
qed

lemma unflatten_flat: "length vs = n \<Longrightarrow> unflatten [n] vs = PList (map Num vs)"
proof -
  assume n: "length vs = n"
  have "\<And>i. i < n \<Longrightarrow> take (Suc 0) (drop i vs) = [vs ! i]"
    using n by (simp add: Cons_nth_drop_Suc [symmetric])
  then have "map (\<lambda>i. unflatten [] (take (Suc 0) (drop i vs))) [0..<n]
      = map (\<lambda>i. Num (vs ! i)) [0..<n]"
    by simp
  also have "\<dots> = map Num vs"
    using n by (simp add: list_eq_iff_nth_eq)
  finally show ?thesis by simp
qed

lemma objective_loop_once:
  "objective_loop f (Suc n) s = objective_loop f (Suc 0) s"
proof (induction n arbitrary: s)
  case 0
  show ?case by simp
next
  case (Suc n)
  show ?case
    apply (subst objective_loop.simps(2))
    apply (simp only: Suc.IH)
    apply (simp split: option.splits sum.splits prod.splits)
    done
qed

lemma objective_loop_frame:
  "snd (objective_loop f n s) = s\<lparr>objective := objective (snd (objective_loop f n s))\<rparr>"
proof (cases n)
  case 0
  then show ?thesis by simp
next
  case (Suc k)
  show ?thesis
    unfolding Suc objective_loop_once [of f k s]
    by (simp split: option.splits sum.splits prod.splits)
qed

lemma output_method_name_error: "output_method s = (Inl (NameError ''GMMOutput''), s)"
  by (simp add: output_method_def module_globals_def)

lemma example_shapes:
  "shape_of (alphas example_input) = Some [2]"
  "shape_of (means example_input) = Some [2, 2]"
  "shape_of (icf example_input) = Some [2, 2]"
  "shape_of (gmm_x example_input) = Some [1, 2]"
  "shape_of (gamma (wishart example_input)) = Some []"
  "shape_of (wishart_m (wishart example_input)) = Some []"
  by (simp_all add: example_input_def)

lemma to_torch_tensor_numel:
  "to_torch_tensor b v = Inr t \<Longrightarrow> numel t = length (flatten v)"
  by (auto simp: to_torch_tensor_def numel_def shape_of_numel split: option.splits)

lemma to_torch_tensors_numel:
  assumes "to_torch_tensors b (v1, v2, v3) = Inr (t1, t2, t3)"
  shows "numel t1 = length (flatten v1)" and "numel t2 = length (flatten v2)"
    and "numel t3 = length (flatten v3)"
  using assms
  by (auto simp: to_torch_tensors_def to_torch_tensor_numel split: sum.splits)

lemma prepare_converted:
  assumes "to_torch_tensors True (alphas input, means input, icf input) = Inr inp"
    and "to_torch_tensors False
           (gmm_x input, gamma (wishart input), wishart_m (wishart input)) = Inr par"
  shows "prepare input self =
     (None, self\<lparr>inputs := Some inp, params := Some par,
                 objective := Some (torch_zeros 1), gradient := Some (torch_empty 0)\<rparr>)"
  using assms by (simp add: prepare_def)

lemma jacobian_once:
  assumes "inputs s = Some (t1, t2, t3)" and "params s = Some (p1, p2, p3)"
    and "f t1 t2 t3 p1 p2 p3 = Inr res"
  shows "calculate_jacobian ad f 1 s =
     (None, s\<lparr>objective := Some res,
              gradient := Some
                \<lparr>shape = [numel t1 + numel t2 + numel t3],
                 data = map (ad f (t1, t2, t3) (p1, p2, p3) 0) [0..<numel t1]
                      @ map (ad f (t1, t2, t3) (p1, p2, p3) 1) [0..<numel t2]
                      @ map (ad f (t1, t2, t3) (p1, p2, p3) 2) [0..<numel t3],
                 requires_grad = False\<rparr>\<rparr>)"
  using assms by (simp add: calculate_jacobian_def torch_jacobian_def)

lemma example_conv:
  "to_torch_tensors True (alphas example_input, means example_input, icf example_input)
     = Inr (\<lparr>shape = [2], data = [0.5, 0.5], requires_grad = True\<rparr>,
            \<lparr>shape = [2, 2], data = [0, 0, 1, 1], requires_grad = True\<rparr>,
            \<lparr>shape = [2, 2], data = [1, 0, 1, 0], requires_grad = True\<rparr>)"
  "to_torch_tensors False
      (gmm_x example_input, gamma (wishart example_input), wishart_m (wishart example_input))
     = Inr (\<lparr>shape = [1, 2], data = [0.1, 0.1], requires_grad = False\<rparr>,
            \<lparr>shape = [], data = [1], requires_grad = False\<rparr>,
            \<lparr>shape = [], data = [0], requires_grad = False\<rparr>)"
  "example_objective
      \<lparr>shape = [2], data = [0.5, 0.5], requires_grad = True\<rparr>
      \<lparr>shape = [2, 2], data = [0, 0, 1, 1], requires_grad = True\<rparr>
      \<lparr>shape = [2, 2], data = [1, 0, 1, 0], requires_grad = True\<rparr>
      \<lparr>shape = [1, 2], data = [0.1, 0.1], requires_grad = False\<rparr>
      \<lparr>shape = [], data = [1], requires_grad = False\<rparr>
      \<lparr>shape = [], data = [0], requires_grad = False\<rparr>
     = Inr \<lparr>shape = [], data = [11], requires_grad = True\<rparr>"
  by (simp_all add: to_torch_tensors_def to_torch_tensor_def example_input_def
      example_objective_def)

lemma example_raw_input: "prepare_input example_raw = Inr example_input"
  by (simp add: prepare_input_def getitem_def example_raw_def example_input_def)

lemma call_new: "call (length h) meth (h @ [s]) = (fst (meth s), h @ [snd (meth s)])"
  by (simp add: call_def split: prod.splits)

lemma call_new_Nil: "call 0 meth [s] = (fst (meth s), [snd (meth s)])"
  using call_new [of "[]" meth s] by simp

lemma objective_body_heap:
  "calculate_objectiveGMM_body f input h =
     (fst (calculate_objectiveGMM_body f input []),
      h @ snd (calculate_objectiveGMM_body f input []))"
  unfolding calculate_objectiveGMM_body_def new_instance_def
  by (simp add: call_new call_new_Nil split: prod.splits option.splits)

lemma jacobian_body_heap:
  "calculate_jacobianGMM_body ad f input h =
     (fst (calculate_jacobianGMM_body ad f input []),
      h @ snd (calculate_jacobianGMM_body ad f input []))"
  unfolding calculate_jacobianGMM_body_def new_instance_def
  by (simp add: call_new call_new_Nil split: prod.splits option.splits)

lemma jacobian_body_result:
  assumes "prepare input PyTorchGMM_new = (None, s)"
    and "calculate_jacobian ad f 1 s = (None, s')"
    and "gradient s' = Some g"
  shows "fst (calculate_jacobianGMM_body ad f input []) = Inr g"
  using assms
  by (simp add: calculate_jacobianGMM_body_def new_instance_def call_new_Nil)

lemma wrap_heap:
  assumes "\<And>arg h. body arg h = (fst (body arg []), h @ snd (body arg []))"
  shows "wrap pre post body raw h =
     (fst (wrap pre post body raw []), h @ snd (wrap pre post body raw []))"
proof (cases "pre raw")
  case (Inl e)
  then show ?thesis by (simp add: wrap_def)
next
  case (Inr arg)
  obtain r k where b: "body arg [] = (r, k)"
    by (cases "body arg []")
  with assms [of arg h] have "body arg h = (r, h @ k)"
    by simp
  with b Inr show ?thesis
    by (simp add: wrap_def split: sum.splits)
qed

subsection \<open>The method \<open>output\<close>\<close>

text \<open>
  Claim C1. After \<open>prepare\<close>, \<open>output()\<close> should return a \<open>GMMOutput\<close> snapshot of the
  objective and the gradient. The module never imports \<open>GMMOutput\<close>: on the adapter
  prepared from the sample input the call raises \<open>NameError\<close> and returns no snapshot
  (the instance itself is left as it was).
\<close>

theorem output_raises_name_error:
  "fst (prepare example_input PyTorchGMM_new) = None
   \<and> output_method (snd (prepare example_input PyTorchGMM_new))
     = (Inl (NameError ''GMMOutput''), snd (prepare example_input PyTorchGMM_new))"
proof -
  have "fst (prepare example_input PyTorchGMM_new) = None"
    by (simp add: prepare_def to_torch_tensors_def to_torch_tensor_def example_input_def)
  then show ?thesis
    by (simp only: output_method_name_error)
qed

subsection \<open>Evaluation before \<open>prepare\<close>\<close>

text \<open>
  Claim C2. For every positive \<open>times\<close>, \<open>calculate_objective(times)\<close> and
  \<open>calculate_jacobian(times)\<close> on an instance on which \<open>prepare\<close> was never called
  fail with the uninitialized-state error (the attribute \<open>inputs\<close> is missing), and leave
  the instance uninitialized, so that every further call fails the same way.
\<close>

theorem evaluation_before_prepare_fails:
  "0 < n \<Longrightarrow>
     calculate_objective f n PyTorchGMM_new
       = (Some (AttributeError ''inputs''), PyTorchGMM_new)
   \<and> calculate_jacobian ad f n PyTorchGMM_new
       = (Some (AttributeError ''inputs''), PyTorchGMM_new)"
proof -
  assume "0 < n"
  then obtain k where k: "nat n = Suc k"
    by (cases "nat n") auto
  show ?thesis
    by (simp add: calculate_objective_def calculate_jacobian_def k PyTorchGMM_new_def)
qed

theorem evaluation_before_prepare_fails_witness:
  "(0::int) < 3
   \<and> calculate_objective example_objective 3 PyTorchGMM_new
       = (Some (AttributeError ''inputs''), PyTorchGMM_new)
   \<and> calculate_jacobian example_autodiff example_objective 3 PyTorchGMM_new
       = (Some (AttributeError ''inputs''), PyTorchGMM_new)"
  using evaluation_before_prepare_fails [of 3 example_objective example_autodiff]
  by simp

subsection \<open>The gradient after \<open>calculate_jacobian(1)\<close>\<close>

text \<open>
  Claim C4. For every input whose fields convert to tensors and on which the objective
  returns, \<open>calculate_jacobian(1)\<close> on the prepared adapter stores a flat gradient (one
  dimension) whose length is the number of elements of \<open>alphas\<close> plus that of
  \<open>means\<close> plus that of \<open>icf\<close>: the partial derivatives for the elements of
  \<open>alphas\<close> first, then those for \<open>means\<close>, then those for \<open>icf\<close>. For a raw record
  of that input \<open>calculate_jacobianGMM\<close> returns this gradient as a flat list: of length
  \<open>2 + 4 + 4 = 10\<close> for two components in two dimensions.
\<close>

theorem jacobian_gradient_layout:
  assumes inp: "to_torch_tensors True (alphas input, means input, icf input) = Inr (t1, t2, t3)"
    and par: "to_torch_tensors False
               (gmm_x input, gamma (wishart input), wishart_m (wishart input)) = Inr (p1, p2, p3)"
    and obj: "gmm_objective t1 t2 t3 p1 p2 p3 = Inr res"
  shows "let na = length (flatten (alphas input));
             nm = length (flatten (means input));
             ni = length (flatten (icf input));
             d = ad gmm_objective (t1, t2, t3) (p1, p2, p3);
             g = map (d 0) [0..<na] @ map (d 1) [0..<nm] @ map (d 2) [0..<ni]
         in calculate_jacobian ad gmm_objective 1 (snd (prepare input self))
              = (None, (snd (prepare input self))
                   \<lparr>objective := Some res,
                    gradient := Some \<lparr>shape = [na + nm + ni], data = g, requires_grad = False\<rparr>\<rparr>)
          \<and> length g = na + nm + ni
          \<and> (prepare_input raw = Inr input \<longrightarrow>
               fst (calculate_jacobianGMM ad gmm_objective raw h) = Inr (PList (map Num g)))"
proof -
  define na where "na = length (flatten (alphas input))"
  define nm where "nm = length (flatten (means input))"
  define ni where "ni = length (flatten (icf input))"
  define d where "d = ad gmm_objective (t1, t2, t3) (p1, p2, p3)"
  define g where "g = map (d 0) [0..<na] @ map (d 1) [0..<nm] @ map (d 2) [0..<ni]"
  define G where "G = \<lparr>shape = [na + nm + ni], data = g, requires_grad = False\<rparr>"
  have n: "numel t1 = na" "numel t2 = nm" "numel t3 = ni"
    using to_torch_tensors_numel [OF inp] by (simp_all add: na_def nm_def ni_def)
  have len: "length g = na + nm + ni"
    by (simp add: g_def)
  have jac: "calculate_jacobian ad gmm_objective 1 (snd (prepare input s0))
       = (None, (snd (prepare input s0))\<lparr>objective := Some res, gradient := Some G\<rparr>)" for s0
  proof -
    have i: "inputs (snd (prepare input s0)) = Some (t1, t2, t3)"
      and p: "params (snd (prepare input s0)) = Some (p1, p2, p3)"
      by (simp_all add: prepare_converted [OF inp par])
    from jacobian_once [where f = gmm_objective and ad = ad, OF i p obj] show ?thesis
      by (simp only: n G_def g_def d_def)
  qed
  have free: "fst (calculate_jacobianGMM ad gmm_objective raw h) = Inr (PList (map Num g))"
    if raw: "prepare_input raw = Inr input"
  proof -
    have p: "prepare input PyTorchGMM_new = (None, snd (prepare input PyTorchGMM_new))"
      by (simp add: prepare_converted [OF inp par])
    have b: "fst (calculate_jacobianGMM_body ad gmm_objective input []) = Inr G"
      by (rule jacobian_body_result [OF p jac]) simp
    have "fst (calculate_jacobianGMM_body ad gmm_objective input h) = Inr G"
      by (subst jacobian_body_heap) (simp add: b)
    then obtain h' where "calculate_jacobianGMM_body ad gmm_objective input h = (Inr G, h')"
      by (cases "calculate_jacobianGMM_body ad gmm_objective input h") simp
    then have "fst (calculate_jacobianGMM ad gmm_objective raw h) = Inr (tolist G)"
      by (simp add: calculate_jacobianGMM_def wrap_def raw)
    also have "tolist G = PList (map Num g)"
      unfolding tolist_def G_def using unflatten_flat [OF len] by simp
    finally show ?thesis .
  qed
  from jac [of self] len free show ?thesis
    unfolding Let_def G_def g_def d_def na_def nm_def ni_def by blast
qed

theorem jacobian_gradient_layout_witness:
  "to_torch_tensors True (alphas example_input, means example_input, icf example_input)
     = Inr (\<lparr>shape = [2], data = [0.5, 0.5], requires_grad = True\<rparr>,
            \<lparr>shape = [2, 2], data = [0, 0, 1, 1], requires_grad = True\<rparr>,
            \<lparr>shape = [2, 2], data = [1, 0, 1, 0], requires_grad = True\<rparr>)
   \<and> to_torch_tensors False
      (gmm_x example_input, gamma (wishart example_input), wishart_m (wishart example_input))
     = Inr (\<lparr>shape = [1, 2], data = [0.1, 0.1], requires_grad = False\<rparr>,
            \<lparr>shape = [], data = [1], requires_grad = False\<rparr>,
            \<lparr>shape = [], data = [0], requires_grad = False\<rparr>)
   \<and> example_objective
      \<lparr>shape = [2], data = [0.5, 0.5], requires_grad = True\<rparr>
      \<lparr>shape = [2, 2], data = [0, 0, 1, 1], requires_grad = True\<rparr>
      \<lparr>shape = [2, 2], data = [1, 0, 1, 0], requires_grad = True\<rparr>
      \<lparr>shape = [1, 2], data = [0.1, 0.1], requires_grad = False\<rparr>
      \<lparr>shape = [], data = [1], requires_grad = False\<rparr>
      \<lparr>shape = [], data = [0], requires_grad = False\<rparr>
     = Inr \<lparr>shape = [], data = [11], requires_grad = True\<rparr>
   \<and> prepare_input example_raw = Inr example_input
   \<and> gradient (snd (calculate_jacobian example_autodiff example_objective 1
                      (snd (prepare example_input PyTorchGMM_new))))
     = Some \<lparr>shape = [10], data = [1, 1, 2, 2, 2, 2, 3, 3, 3, 3], requires_grad = False\<rparr>
   \<and> fst (calculate_jacobianGMM example_autodiff example_objective example_raw [])
     = Inr (PList [Num 1, Num 1, Num 2, Num 2, Num 2, Num 2, Num 3, Num 3, Num 3, Num 3])"
proof -
  have l: "length (flatten (alphas example_input)) = 2"
    "length (flatten (means example_input)) = 4"
    "length (flatten (icf example_input)) = 4"
    by (simp_all add: example_input_def)
  have u: "[0..<2] = [0, Suc 0]" "[0..<4] = [0, Suc 0, 2, 3]"
    by (simp_all add: upt_rec)
  from jacobian_gradient_layout
      [where gmm_objective = example_objective and ad = example_autodiff
        and self = PyTorchGMM_new and raw = example_raw and h = "[]", OF example_conv]
    example_conv example_raw_input
  show ?thesis
    by (simp add: Let_def l u example_autodiff_def)
qed

subsection \<open>The iteration count\<close>

text \<open>
  Claim C5. For every \<open>times \<ge> 1\<close>, \<open>calculate_objective(times)\<close> leaves the adapter
  exactly as \<open>calculate_objective(1)\<close> does (the objective field in particular), and
  raises what it raises: the objective being a pure function, the iteration count does not
  change the stored result.
\<close>

theorem calculate_objective_times_irrelevant:
  "1 \<le> n \<Longrightarrow> calculate_objective f n s = calculate_objective f 1 s"
proof -
  assume "1 \<le> n"
  then obtain k where k: "nat n = Suc k"
    by (cases "nat n") auto
  show ?thesis
    by (simp only: calculate_objective_def k objective_loop_once [of f k s]) simp
qed

theorem calculate_objective_times_irrelevant_witness:
  "(1::int) \<le> 5
   \<and> calculate_objective example_objective 5 (snd (prepare example_input PyTorchGMM_new))
     = calculate_objective example_objective 1 (snd (prepare example_input PyTorchGMM_new))
   \<and> objective
       (snd (calculate_objective example_objective 5
              (snd (prepare example_input PyTorchGMM_new))))
     = Some \<lparr>shape = [], data = [11], requires_grad = True\<rparr>"
proof -
  have "calculate_objective example_objective 5 (snd (prepare example_input PyTorchGMM_new))
     = calculate_objective example_objective 1 (snd (prepare example_input PyTorchGMM_new))"
    using calculate_objective_times_irrelevant
      [of 5 example_objective "snd (prepare example_input PyTorchGMM_new)"]
    by simp
  moreover have "objective
       (snd (calculate_objective example_objective 1
              (snd (prepare example_input PyTorchGMM_new))))
     = Some \<lparr>shape = [], data = [11], requires_grad = True\<rparr>"
    by (simp add: calculate_objective_def prepare_def to_torch_tensors_def
        to_torch_tensor_def example_input_def example_objective_def)
  ultimately show ?thesis
    by simp
qed

subsection \<open>What \<open>calculate_objective\<close> touches\<close>

text \<open>
  Claim C6. For every adapter (prepared or not) and every \<open>times\<close>,
  \<open>calculate_objective(times)\<close> changes at most the objective field: the instance it
  leaves is the one it found with the objective replaced, so the inputs, the parameters and
  the gradient are as before; no gradient is computed.
\<close>

theorem calculate_objective_frame:
  "snd (calculate_objective f n s)
     = s\<lparr>objective := objective (snd (calculate_objective f n s))\<rparr>
   \<and> inputs (snd (calculate_objective f n s)) = inputs s
   \<and> params (snd (calculate_objective f n s)) = params s
   \<and> gradient (snd (calculate_objective f n s)) = gradient s"
proof -
  have a: "snd (calculate_objective f n s)
      = s\<lparr>objective := objective (snd (calculate_objective f n s))\<rparr>"
    unfolding calculate_objective_def by (rule objective_loop_frame)
  have b: "inputs (snd (calculate_objective f n s)) = inputs s"
    by (subst a) simp
  have c: "params (snd (calculate_objective f n s)) = params s"
    by (subst a) simp
  have d: "gradient (snd (calculate_objective f n s)) = gradient s"
    by (subst a) simp
  from a b c d show ?thesis
    by blast
qed

subsection \<open>Building the input\<close>

text \<open>
  Claim C7. For every raw record that has the keys \<open>alpha\<close>, \<open>means\<close>, \<open>icf\<close>,
  \<open>x\<close>, \<open>gamma\<close> and \<open>m\<close>, \<open>prepare_input\<close> builds the \<open>GMMInput\<close> whose fields
  are exactly the values stored under these keys, untransformed.
\<close>

theorem prepare_input_fields:
  assumes "input ''alpha'' = Some a" and "input ''means'' = Some mu"
    and "input ''icf'' = Some i" and "input ''x'' = Some xv"
    and "input ''gamma'' = Some g" and "input ''m'' = Some mm"
  shows "prepare_input input =
     Inr \<lparr>alphas = a, means = mu, icf = i, gmm_x = xv,
          wishart = \<lparr>gamma = g, wishart_m = mm\<rparr>\<rparr>"
  using assms by (simp add: prepare_input_def getitem_def)

theorem prepare_input_fields_witness:
  "example_raw ''alpha'' = Some (PList [Num 0.5, Num 0.5])
   \<and> example_raw ''means'' = Some (PList [PList [Num 0, Num 0], PList [Num 1, Num 1]])
   \<and> example_raw ''icf'' = Some (PList [PList [Num 1, Num 0], PList [Num 1, Num 0]])
   \<and> example_raw ''x'' = Some (PList [PList [Num 0.1, Num 0.1]])
   \<and> example_raw ''gamma'' = Some (Num 1.0)
   \<and> example_raw ''m'' = Some (Num 0)
   \<and> prepare_input example_raw =
       Inr \<lparr>alphas = PList [Num 0.5, Num 0.5],
            means = PList [PList [Num 0, Num 0], PList [Num 1, Num 1]],
            icf = PList [PList [Num 1, Num 0], PList [Num 1, Num 0]],
            gmm_x = PList [PList [Num 0.1, Num 0.1]],
            wishart = \<lparr>gamma = Num 1.0, wishart_m = Num 0\<rparr>\<rparr>"
proof -
  have k: "example_raw ''alpha'' = Some (PList [Num 0.5, Num 0.5])"
    "example_raw ''means'' = Some (PList [PList [Num 0, Num 0], PList [Num 1, Num 1]])"
    "example_raw ''icf'' = Some (PList [PList [Num 1, Num 0], PList [Num 1, Num 0]])"
    "example_raw ''x'' = Some (PList [PList [Num 0.1, Num 0.1]])"
    "example_raw ''gamma'' = Some (Num 1.0)"
    "example_raw ''m'' = Some (Num 0)"
    by (simp_all add: example_raw_def)
  from prepare_input_fields [OF k] k show ?thesis
    by simp
qed

subsection \<open>The method \<open>prepare\<close>\<close>

text \<open>
  Claim C8. For every \<open>GMMInput\<close> (its fields being numeric arrays and scalars, as the
  data model has them; the arrays of any dimension), on every adapter, \<open>prepare\<close>
  returns normally; it has then stored \<open>alphas\<close>, \<open>means\<close> and \<open>icf\<close> as tensors with
  gradient tracking, \<open>x\<close>, \<open>gamma\<close> and \<open>m\<close> as tensors without, each with the shape
  and the elements of the field it comes from, the one-element zero tensor as the objective
  and the empty tensor as the gradient.
\<close>

theorem prepare_valid_input:
  assumes "shape_of (alphas input) = Some sa" and "shape_of (means input) = Some sm"
    and "shape_of (icf input) = Some si" and "shape_of (gmm_x input) = Some sx"
    and "shape_of (gamma (wishart input)) = Some sg"
    and "shape_of (wishart_m (wishart input)) = Some sw"
  shows "prepare input self =
     (None,
      self\<lparr>inputs := Some
          (\<lparr>shape = sa, data = flatten (alphas input), requires_grad = True\<rparr>,
           \<lparr>shape = sm, data = flatten (means input), requires_grad = True\<rparr>,
           \<lparr>shape = si, data = flatten (icf input), requires_grad = True\<rparr>),
        params := Some
          (\<lparr>shape = sx, data = flatten (gmm_x input), requires_grad = False\<rparr>,
           \<lparr>shape = sg, data = flatten (gamma (wishart input)), requires_grad = False\<rparr>,
           \<lparr>shape = sw, data = flatten (wishart_m (wishart input)), requires_grad = False\<rparr>),
        objective := Some \<lparr>shape = [1], data = [0], requires_grad = False\<rparr>,
        gradient := Some \<lparr>shape = [0], data = [], requires_grad = False\<rparr>\<rparr>)"
  using assms
  by (simp add: prepare_def to_torch_tensors_def to_torch_tensor_def torch_zeros_def
      torch_empty_def)

theorem prepare_valid_input_witness:
  "shape_of (alphas example_input) = Some [2]
   \<and> shape_of (means example_input) = Some [2, 2]
   \<and> shape_of (icf example_input) = Some [2, 2]
   \<and> shape_of (gmm_x example_input) = Some [1, 2]
   \<and> shape_of (gamma (wishart example_input)) = Some []
   \<and> shape_of (wishart_m (wishart example_input)) = Some []
   \<and> prepare example_input PyTorchGMM_new =
     (None,
      \<lparr>inputs = Some
          (\<lparr>shape = [2], data = [0.5, 0.5], requires_grad = True\<rparr>,
           \<lparr>shape = [2, 2], data = [0, 0, 1, 1], requires_grad = True\<rparr>,
           \<lparr>shape = [2, 2], data = [1, 0, 1, 0], requires_grad = True\<rparr>),
        params = Some
          (\<lparr>shape = [1, 2], data = [0.1, 0.1], requires_grad = False\<rparr>,
           \<lparr>shape = [], data = [1], requires_grad = False\<rparr>,
           \<lparr>shape = [], data = [0], requires_grad = False\<rparr>),
        objective = Some \<lparr>shape = [1], data = [0], requires_grad = False\<rparr>,
        gradient = Some \<lparr>shape = [0], data = [], requires_grad = False\<rparr>\<rparr>)"
  using prepare_valid_input [OF example_shapes, of PyTorchGMM_new] example_shapes
  by (simp add: example_input_def PyTorchGMM_new_def)

subsection \<open>No iteration\<close>

text \<open>
  Claim C9. With \<open>times = 0\<close>, \<open>calculate_objective\<close> and \<open>calculate_jacobian\<close>
  return normally and leave every field of the adapter as it was, whatever the adapter: on
  a new instance too, where no attribute is read and hence no error raised.
\<close>

theorem zero_times_is_noop:
  "calculate_objective f 0 s = (None, s)
   \<and> calculate_jacobian ad f 0 s = (None, s)
   \<and> calculate_objective f 0 PyTorchGMM_new = (None, PyTorchGMM_new)
   \<and> calculate_jacobian ad f 0 PyTorchGMM_new = (None, PyTorchGMM_new)"
  by (simp add: calculate_objective_def calculate_jacobian_def)

subsection \<open>The free functions do not depend on earlier calls\<close>

text \<open>
  Claim C10. The objective and the differentiation routine being pure functions, what
  \<open>calculate_objectiveGMM\<close> and \<open>calculate_jacobianGMM\<close> return on a raw record does
  not depend on the instances that exist when they are called: two calls on equal records
  return equal results, whatever happened in between and in particular when the second
  call follows the first. Each call works on an instance of its own and leaves the
  instances that existed before untouched.
\<close>

theorem free_functions_deterministic:
  "fst (calculate_objectiveGMM f raw h) = fst (calculate_objectiveGMM f raw h')
   \<and> fst (calculate_jacobianGMM ad f raw h) = fst (calculate_jacobianGMM ad f raw h')
   \<and> fst (calculate_objectiveGMM f raw (snd (calculate_objectiveGMM f raw h)))
       = fst (calculate_objectiveGMM f raw h)
   \<and> fst (calculate_jacobianGMM ad f raw (snd (calculate_jacobianGMM ad f raw h)))
       = fst (calculate_jacobianGMM ad f raw h)
   \<and> take (length h) (snd (calculate_objectiveGMM f raw h)) = h
   \<and> take (length h) (snd (calculate_jacobianGMM ad f raw h)) = h"
proof -
  have o: "calculate_objectiveGMM f raw k =
     (fst (calculate_objectiveGMM f raw []), k @ snd (calculate_objectiveGMM f raw []))" for k
    unfolding calculate_objectiveGMM_def by (rule wrap_heap) (rule objective_body_heap)
  have j: "calculate_jacobianGMM ad f raw k =
     (fst (calculate_jacobianGMM ad f raw []), k @ snd (calculate_jacobianGMM ad f raw []))" for k
    unfolding calculate_jacobianGMM_def by (rule wrap_heap) (rule jacobian_body_heap)
  have 1: "fst (calculate_objectiveGMM f raw k) = fst (calculate_objectiveGMM f raw [])" for k
    by (subst o) simp
  have 2: "fst (calculate_jacobianGMM ad f raw k) = fst (calculate_jacobianGMM ad f raw [])" for k
    by (subst j) simp
  have 3: "take (length h) (snd (calculate_objectiveGMM f raw h)) = h"
    by (subst o) simp
  have 4: "take (length h) (snd (calculate_jacobianGMM ad f raw h)) = h"
    by (subst j) simp
  from 1 [of h] 1 [of h'] 1 [of "snd (calculate_objectiveGMM f raw h)"]
    2 [of h] 2 [of h'] 2 [of "snd (calculate_jacobianGMM ad f raw h)"] 3 4
  show ?thesis
    by presburger
qed

end
